theory Spec2Isabelle
  imports Complex_Main "HOL-Library.Sublist"
begin

section \<open>Common JavaScript notions\<close>

text \<open>
  A JavaScript string is a sequence of UTF-16 code units; it is modelled as a
  \<^typ>\<open>string\<close> whose elements each stand for one code unit (the texts of this
  program stay within Latin-1, so a-tilde is \<^term>\<open>CHR 0xE3\<close>), and \<open>.length\<close> is
  \<^const>\<open>length\<close>. A thrown value is a \<open>js_error\<close>; a computation that may
  throw returns \<open>js_error + 'a\<close>, \<^const>\<open>Inl\<close> being the throw.
\<close>

datatype js_error = Error string

text \<open>\<open>try { body } catch (e) { handler }\<close>\<close>

definition try_catch :: "('e + 'a) \<Rightarrow> ('e \<Rightarrow> 'e + 'a) \<Rightarrow> 'e + 'a" where
  "try_catch body handler = (case body of Inl e \<Rightarrow> handler e | Inr v \<Rightarrow> Inr v)"

text \<open>\<open>a || b\<close> on an optional string: \<open>undefined\<close> and \<open>''\<close> are falsy.\<close>

definition or_else :: "string option \<Rightarrow> string \<Rightarrow> string" where
  "or_else a b = (case a of None \<Rightarrow> b | Some s \<Rightarrow> if s \<noteq> [] then s else b)"

text \<open>\<open>String.prototype.includes\<close>: the argument occurs as a contiguous substring.\<close>

fun startsWith :: "string \<Rightarrow> string \<Rightarrow> bool" where
  "startsWith s [] = True"
| "startsWith [] (c # cs) = False"
| "startsWith (x # xs) (c # cs) = (x = c \<and> startsWith xs cs)"

fun str_includes :: "string \<Rightarrow> string \<Rightarrow> bool" where
  "str_includes [] sub = (sub = [])"
| "str_includes (x # xs) sub = (startsWith (x # xs) sub \<or> str_includes xs sub)"

text \<open>\<open>String(n)\<close> for a non-negative integer, and \<open>.padStart(n, c)\<close> with a one-character pad.\<close>

definition digit_char :: "nat \<Rightarrow> char" where
  "digit_char d = ''0123456789'' ! d"

function String_of_nat :: "nat \<Rightarrow> string" where
  "String_of_nat n =
     (if n < 10 then [digit_char n] else String_of_nat (n div 10) @ [digit_char (n mod 10)])"
  by pat_completeness auto
termination
  by (relation "measure id") auto

declare String_of_nat.simps [simp del]

definition padStart :: "nat \<Rightarrow> char \<Rightarrow> string \<Rightarrow> string" where
  "padStart targetLength c s = replicate (targetLength - length s) c @ s"

section \<open>PlaceAutocomplete.tsx\<close>

subsection \<open>Data\<close>

text \<open>\<open>interface Place\<close>. Latitude and longitude are only ever passed on.\<close>

record Place =
  city :: string
  admin :: "string option"
  country :: string
  countryCode :: string
  lat :: real
  lon :: real
  timezone :: string
  provider :: string
  placeId :: string

text \<open>
  \<open>interface PlaceSuggestion\<close>, its \<open>properties\<close> object; an optional member is an
  \<open>option\<close>. \<open>prop_timezone\<close> is \<open>timezone?: { name?: string }\<close>.
\<close>

record PlaceSuggestion =
  prop_formatted :: string
  prop_name :: "string option"
  prop_city :: "string option"
  prop_state :: "string option"
  prop_country :: "string option"
  prop_country_code :: "string option"
  prop_lat :: real
  prop_lon :: real
  prop_place_id :: string
  prop_timezone :: "string option option"

text \<open>The \<open>useState\<close> cells of the component.\<close>

record ac_state =
  suggestions :: "PlaceSuggestion list"
  isLoading :: bool
  isOpen :: bool
  selectedIndex :: int

text \<open>
  What the component does to the outside: the two callbacks of its props, the
  default action it cancels, the geocoding request (identified by the search
  term its URL carries). Console logging is left out.
\<close>

datatype ac_effect =
    OnChange string
  | OnPlaceSelect "Place option"
  | PreventDefault
  | GeoFetch string

text \<open>The offline lookup \<open>tzlookup(lat, lon)\<close> of the \<open>tz-lookup\<close> package: it throws or returns a name.\<close>

type_synonym tzlookup = "real \<Rightarrow> real \<Rightarrow> js_error + string"

subsection \<open>formatSuggestion, getTimezone, selectSuggestion\<close>

definition formatSuggestion :: "PlaceSuggestion \<Rightarrow> string" where
  "formatSuggestion suggestion =
     (let city = or_else (prop_city suggestion) (or_else (prop_name suggestion) []);
          admin = or_else (prop_state suggestion) [];
          country = or_else (prop_country suggestion) []
      in city @ (if admin \<noteq> [] then '', '' @ admin else []) @ '', '' @ country)"

definition getTimezone :: "tzlookup \<Rightarrow> real \<Rightarrow> real \<Rightarrow> string option \<Rightarrow> js_error + string" where
  "getTimezone tzl la lo apiTimezone =
     (if or_else apiTimezone [] \<noteq> [] then Inr (or_else apiTimezone [])
      else try_catch
             (case tzl la lo of
                Inl e \<Rightarrow> Inl e
              | Inr z \<Rightarrow> Inr (if z \<noteq> [] then z else ''UTC''))
             (\<lambda>error. Inr ''UTC''))"

text \<open>
  \<open>selectSuggestion\<close>: the callbacks in the order they are made, and
  \<open>setIsOpen(false)\<close>. \<open>properties.timezone?.name\<close> is \<open>undefined\<close> when either
  level is missing.
\<close>

definition makePlace :: "tzlookup \<Rightarrow> PlaceSuggestion \<Rightarrow> js_error + Place" where
  "makePlace tzl suggestion =
     (case getTimezone tzl (prop_lat suggestion) (prop_lon suggestion)
             (case prop_timezone suggestion of None \<Rightarrow> None | Some t \<Rightarrow> t) of
        Inl e \<Rightarrow> Inl e
      | Inr tz \<Rightarrow> Inr \<lparr>
          city = or_else (prop_city suggestion) (or_else (prop_name suggestion) []),
          admin = (if or_else (prop_state suggestion) [] \<noteq> [] then prop_state suggestion else None),
          country = or_else (prop_country suggestion) [],
          countryCode = or_else (prop_country_code suggestion) [],
          lat = prop_lat suggestion,
          lon = prop_lon suggestion,
          timezone = tz,
          provider = ''geoapify'',
          placeId = prop_place_id suggestion \<rparr>)"

text \<open>
  An event handler returns the new state, the effects in the order they are made,
  and the value it throws, if any (effects made before a throw stay made).
\<close>

type_synonym handled = "ac_state \<times> ac_effect list \<times> js_error option"

definition selectSuggestion :: "tzlookup \<Rightarrow> PlaceSuggestion \<Rightarrow> ac_state \<Rightarrow> handled" where
  "selectSuggestion tzl suggestion st =
     (case makePlace tzl suggestion of
        Inl e \<Rightarrow> (st, [OnChange (formatSuggestion suggestion)], Some e)
      | Inr place \<Rightarrow>
          (st\<lparr>isOpen := False\<rparr>,
           [OnChange (formatSuggestion suggestion), OnPlaceSelect (Some place)], None))"

subsection \<open>The search effect\<close>

text \<open>
  The \<open>useEffect\<close> on \<open>debouncedSearchTerm\<close>. Up to the \<open>await\<close> it runs at once:
  either the early return, or \<open>setIsLoading(true)\<close> and the request. The rest of
  \<open>searchPlaces\<close> runs when the request settles, with a \<open>geo_result\<close>: the fetch
  rejected, or a response with its \<open>ok\<close> flag and what \<open>response.json()\<close> gives
  (a throw, or the \<open>features\<close> member of the parsed data, if any).
\<close>

datatype geo_result =
    GeoRejected js_error
  | GeoResponse bool "js_error + PlaceSuggestion list option"

definition searchEffect :: "string \<Rightarrow> ac_state \<Rightarrow> ac_state \<times> ac_effect list" where
  "searchEffect debouncedSearchTerm st =
     (if length debouncedSearchTerm < 2
      then (st\<lparr>suggestions := [], isOpen := False\<rparr>, [])
      else (st\<lparr>isLoading := True\<rparr>, [GeoFetch debouncedSearchTerm]))"

definition searchPlaces_try :: "geo_result \<Rightarrow> js_error + PlaceSuggestion list" where
  "searchPlaces_try r =
     (case r of
        GeoRejected e \<Rightarrow> Inl e
      | GeoResponse ok body \<Rightarrow>
          if \<not> ok then Inl (Error ''Search failed'')
          else (case body of
                  Inl e \<Rightarrow> Inl e
                | Inr features \<Rightarrow> Inr (case features of None \<Rightarrow> [] | Some fs \<Rightarrow> fs)))"

definition searchPlaces_settled :: "geo_result \<Rightarrow> ac_state \<Rightarrow> ac_state" where
  "searchPlaces_settled r st =
     (case searchPlaces_try r of
        Inr fs \<Rightarrow> st\<lparr>suggestions := fs, isOpen := True, selectedIndex := - 1, isLoading := False\<rparr>
      | Inl error \<Rightarrow> st\<lparr>suggestions := [], isLoading := False\<rparr>)"

subsection \<open>Keyboard, pointer, focus and text input\<close>

text \<open>\<open>xs[i]\<close> for an integer \<open>i\<close>: \<open>undefined\<close> outside the array.\<close>

definition index_at :: "'a list \<Rightarrow> int \<Rightarrow> 'a option" where
  "index_at xs i = (if 0 \<le> i \<and> i < int (length xs) then Some (xs ! nat i) else None)"

definition handleKeyDown :: "tzlookup \<Rightarrow> string \<Rightarrow> ac_state \<Rightarrow> handled" where
  "handleKeyDown tzl key st =
     (if \<not> isOpen st then (st, [], None)
      else if key = ''ArrowDown'' then
        (st\<lparr>selectedIndex :=
              (if selectedIndex st < int (length (suggestions st)) - 1
               then selectedIndex st + 1 else selectedIndex st)\<rparr>,
         [PreventDefault], None)
      else if key = ''ArrowUp'' then
        (st\<lparr>selectedIndex := (if selectedIndex st > 0 then selectedIndex st - 1 else - 1)\<rparr>,
         [PreventDefault], None)
      else if key = ''Enter'' then
        (if selectedIndex st \<ge> 0
         then (case index_at (suggestions st) (selectedIndex st) of
                 None \<Rightarrow> (st, [PreventDefault], None)
               | Some suggestion \<Rightarrow>
                   (case selectSuggestion tzl suggestion st of
                      (st', effs, thrown) \<Rightarrow> (st', PreventDefault # effs, thrown)))
         else (st, [PreventDefault], None))
      else if key = ''Escape'' then (st\<lparr>isOpen := False, selectedIndex := - 1\<rparr>, [], None)
      else (st, [], None))"

text \<open>
  The \<open>onClick\<close> of the \<open>i\<close>-th list item; the list is rendered only while
  \<open>isOpen && suggestions.length > 0\<close>.
\<close>

definition clickSuggestion :: "tzlookup \<Rightarrow> nat \<Rightarrow> ac_state \<Rightarrow> handled" where
  "clickSuggestion tzl i st =
     (if isOpen st \<and> i < length (suggestions st)
      then selectSuggestion tzl (suggestions st ! i) st
      else (st, [], None))"

text \<open>The \<open>onChange\<close> of the text input, with \<open>e.target.value\<close>.\<close>

definition inputChange :: "string \<Rightarrow> ac_effect list" where
  "inputChange v = [OnChange v, OnPlaceSelect None]"

text \<open>
  The timer of \<open>handleBlur\<close> firing; the argument tells whether the list holds the
  focus then.
\<close>

definition blurTimeout :: "bool \<Rightarrow> ac_state \<Rightarrow> ac_state" where
  "blurTimeout focusInList st = (if \<not> focusInList then st\<lparr>isOpen := False\<rparr> else st)"

text \<open>
  The keyboard table of the specification, in its own words, on the highlighted
  index and the dropdown flag, for \<open>n\<close> suggestions: Down is one more, clamped to
  the last suggestion's index; Up is one less, clamped to \<open>-1\<close>; Escape closes and
  resets; Enter leaves both to the Selection it may perform. Named \<open>spec_\<close> to
  keep it apart from the code.
\<close>

definition spec_keyboard_index :: "string \<Rightarrow> nat \<Rightarrow> int \<Rightarrow> int" where
  "spec_keyboard_index key n i =
     (if key = ''ArrowDown'' then min (i + 1) (int n - 1)
      else if key = ''ArrowUp'' then max (i - 1) (- 1)
      else if key = ''Escape'' then - 1
      else i)"

section \<open>AstrologyForm.tsx\<close>

subsection \<open>Data\<close>

text \<open>
  The birth date is a \<open>Date\<close> of which only the local calendar day is read (by
  \<open>format\<close>); months count from 1 here.
\<close>

record LocalDate =
  year :: nat
  month :: nat
  day :: nat

text \<open>\<open>type FormData\<close>: the validated values \<open>handleSubmit\<close> passes to \<open>onSubmit\<close>.\<close>

record FormData =
  fullName :: string
  birthDate :: LocalDate
  birthTime :: string
  birthPlace :: string
  email :: string

text \<open>The values the form library holds while the user types; a field not yet set is \<open>None\<close>.\<close>

record FormValues =
  v_fullName :: "string option"
  v_birthDate :: "LocalDate option"
  v_birthTime :: "string option"
  v_birthPlace :: "string option"
  v_email :: "string option"

text \<open>The state of the component: \<open>selectedPlace\<close> and the form's values.\<close>

record form_state =
  selectedPlace :: "Place option"
  form_values :: FormValues

text \<open>The object \<open>payload\<close> of \<open>onSubmit\<close>, before \<open>JSON.stringify\<close>.\<close>

record PayloadPlace =
  pl_city :: string
  pl_admin :: string
  pl_country :: string
  pl_countryCode :: string
  pl_lat :: real
  pl_lon :: real
  pl_timezone :: string
  pl_timezoneOffset :: string
  pl_provider :: string
  pl_placeId :: string

record Payload =
  p_fullName :: string
  p_birthDate :: string
  p_birthTime :: string
  p_email :: string
  p_place :: PayloadPlace

text \<open>
  What \<open>onSubmit\<close> needs of its surroundings:
  \<^item> \<open>WEBHOOK_URL\<close>, the build-time constant (\<open>string | undefined\<close>);
  \<open>now_ms\<close>, the epoch milliseconds of \<open>new Date()\<close>;
  \<^item> \<open>local_offset\<close>, the offset of the browser's own time zone in minutes east of
    UTC, so that \<open>getTimezoneOffset()\<close> is its negation (taken constant over the
    day around \<open>now_ms\<close>);
  \<^item> \<open>zone_offset\<close>, the time zone database: the UTC offset, in minutes east of UTC,
    of an IANA zone at an instant, \<open>None\<close> for a name that is no zone (which
    \<open>toLocaleString\<close> rejects with a RangeError);
  \<^item> \<open>createObjectURL\<close>, the URL that \<open>URL.createObjectURL\<close> gives a blob.
\<close>

record submit_env =
  WEBHOOK_URL :: "string option"
  now_ms :: int
  local_offset :: int
  zone_offset :: "string \<Rightarrow> int \<Rightarrow> int option"
  createObjectURL :: "string \<Rightarrow> string"

datatype json =
    JObject "(string \<times> json) list"
  | JArray "json list"
  | JString string
  | JNumber real
  | JBool bool
  | JNull

text \<open>
  The webhook's answer: the fetch rejects, or resolves to a response, of which
  the code reads \<open>ok\<close>, \<open>status\<close>, the \<open>content-type\<close> header (\<open>null\<close> when absent)
  and one of the body readers, each of which may reject.
\<close>

record response =
  ok :: bool
  status :: nat
  content_type :: "string option"
  text_body :: "js_error + string"
  blob_body :: "js_error + string"
  json_body :: "js_error + json"

datatype fetch_result = FetchRejected js_error | FetchResolved response

datatype submit_effect =
    SetError string string
  | ConsoleError_text string
  | ConsoleError_value js_error
  | Alert string
  | Post string Payload
  | DocumentOpen
  | DocumentWrite string
  | DocumentClose
  | CreateObjectURL string
  | SetLocationHref string

subsection \<open>The messages\<close>

definition msg_select_city :: string where
  "msg_select_city = ''Selecione uma cidade das sugest'' @ [CHR 0xF5] @ ''es.''"

definition msg_url_undefined :: string where
  "msg_url_undefined = ''VITE_N8N_WEBHOOK_URL n'' @ [CHR 0xE3] @ ''o definida no build.''"

definition msg_config_missing :: string where
  "msg_config_missing =
     ''Configura'' @ [CHR 0xE7, CHR 0xE3] @ ''o do servidor ausente. Tente novamente mais tarde.''"

definition msg_report_failed :: string where
  "msg_report_failed = ''Falha ao processar o relat'' @ [CHR 0xF3] @ ''rio''"

definition msg_generic_failure :: string where
  "msg_generic_failure =
     ''N'' @ [CHR 0xE3] @ ''o foi poss'' @ [CHR 0xED] @ ''vel gerar o relat'' @ [CHR 0xF3]
       @ ''rio agora. Tente novamente.''"

subsection \<open>Dates and getTimezoneOffsetISO\<close>

text \<open>
  \<open>format(date, 'yyyy-MM-dd')\<close> of date-fns, on the local calendar day.
\<close>

definition format_yyyy_MM_dd :: "LocalDate \<Rightarrow> string" where
  "format_yyyy_MM_dd d =
     padStart 4 CHR ''0'' (String_of_nat (year d)) @ ''-''
       @ padStart 2 CHR ''0'' (String_of_nat (month d)) @ ''-''
       @ padStart 2 CHR ''0'' (String_of_nat (day d))"

text \<open>\<open>Math.round\<close>: the nearest integer, a tie going up.\<close>

definition Math_round :: "real \<Rightarrow> int" where
  "Math_round x = \<lfloor>x + 1 / 2\<rfloor>"

text \<open>\<open>date.getTimezoneOffset()\<close>: minutes, positive when the browser is behind UTC.\<close>

definition getTimezoneOffset :: "submit_env \<Rightarrow> int" where
  "getTimezoneOffset env = - local_offset env"

text \<open>
  \<open>date.toLocaleString('en-US', { timeZone })\<close> prints the wall clock of the zone to
  the second; \<open>new Date(...)\<close> reads that text back as a wall clock of the browser's
  own zone. \<open>localDate_ms\<close> is the \<open>getTime()\<close> of the Date so obtained.
\<close>

definition localDate_ms :: "submit_env \<Rightarrow> int \<Rightarrow> int \<Rightarrow> int" where
  "localDate_ms env zone_minutes date =
     ((date + zone_minutes * 60000) div 1000) * 1000 - local_offset env * 60000"

definition getTimezoneOffsetISO :: "submit_env \<Rightarrow> string \<Rightarrow> int \<Rightarrow> js_error + string" where
  "getTimezoneOffsetISO env tz date =
     (case zone_offset env tz date of
        None \<Rightarrow> Inl (Error ''RangeError: Invalid time zone specified'')
      | Some zone_minutes \<Rightarrow>
          let localDate = localDate_ms env zone_minutes date;
              offsetMinutes =
                Math_round (real_of_int (localDate - date) / 60000
                            + real_of_int (getTimezoneOffset env));
              sign = (if offsetMinutes \<le> 0 then ''+'' else ''-'');
              absMinutes = nat \<bar>offsetMinutes\<bar>;
              hours = padStart 2 CHR ''0'' (String_of_nat (absMinutes div 60));
              minutes = padStart 2 CHR ''0'' (String_of_nat (absMinutes mod 60))
          in Inr (sign @ hours @ '':'' @ minutes))"

text \<open>
  The offset text the specification asks for, in its words: a signed \<open>\<plusminus>HH:MM\<close>,
  \<open>+\<close> for a zone ahead of UTC, of a zone \<open>m\<close> minutes east of UTC. Named \<open>spec_\<close> to
  keep it apart from the code.
\<close>

definition spec_offset_string :: "int \<Rightarrow> string" where
  "spec_offset_string m =
     (if 0 \<le> m then ''+'' else ''-'')
       @ padStart 2 CHR ''0'' (String_of_nat (nat \<bar>m\<bar> div 60)) @ '':''
       @ padStart 2 CHR ''0'' (String_of_nat (nat \<bar>m\<bar> mod 60))"

subsection \<open>isFormValid and onSubmit\<close>

text \<open>
  \<open>form.formState.isValid && !!selectedPlace?.timezone\<close>; the first argument is the
  library's \<open>formState.isValid\<close>, the verdict of \<open>formSchema\<close> on the fields. The
  submit button has \<open>disabled={!isFormValid}\<close>.
\<close>

definition isFormValid :: "bool \<Rightarrow> form_state \<Rightarrow> bool" where
  "isFormValid formState_isValid st =
     (formState_isValid \<and>
      (case selectedPlace st of None \<Rightarrow> False | Some p \<Rightarrow> timezone p \<noteq> []))"

definition submit_disabled :: "bool \<Rightarrow> form_state \<Rightarrow> bool" where
  "submit_disabled formState_isValid st = (\<not> isFormValid formState_isValid st)"

definition make_payload :: "FormData \<Rightarrow> Place \<Rightarrow> string \<Rightarrow> Payload" where
  "make_payload data sp timezoneOffset = \<lparr>
     p_fullName = fullName data,
     p_birthDate = format_yyyy_MM_dd (birthDate data),
     p_birthTime = birthTime data,
     p_email = email data,
     p_place = \<lparr>
       pl_city = city sp,
       pl_admin = or_else (admin sp) [],
       pl_country = country sp,
       pl_countryCode = countryCode sp,
       pl_lat = lat sp,
       pl_lon = lon sp,
       pl_timezone = timezone sp,
       pl_timezoneOffset = timezoneOffset,
       pl_provider = provider sp,
       pl_placeId = placeId sp \<rparr> \<rparr>"

text \<open>
  The body of the \<open>try\<close> block: the effects it makes, and whether it completes
  (\<open>Inr\<close>) or throws (\<open>Inl\<close>). The last argument is what the webhook answers.
\<close>

definition onSubmit_try ::
  "submit_env \<Rightarrow> string \<Rightarrow> Payload \<Rightarrow> fetch_result \<Rightarrow> submit_effect list \<times> (js_error + unit)" where
  "onSubmit_try env url payload fr =
     (case fr of
        FetchRejected e \<Rightarrow> ([Post url payload], Inl e)
      | FetchResolved res \<Rightarrow>
          if \<not> ok res then
            (let txt = (case text_body res of Inl e \<Rightarrow> [] | Inr t \<Rightarrow> t)
             in ([Post url payload],
                 Inl (Error (''Erro '' @ String_of_nat (status res) @ '': ''
                             @ (if txt \<noteq> [] then txt else msg_report_failed)))))
          else
            (let ct = (case content_type res of None \<Rightarrow> [] | Some c \<Rightarrow> c)
             in if str_includes ct ''text/html'' then
                  (case text_body res of
                     Inl e \<Rightarrow> ([Post url payload], Inl e)
                   | Inr html \<Rightarrow>
                       ([Post url payload, DocumentOpen, DocumentWrite html, DocumentClose],
                        Inr ()))
                else if str_includes ct ''application/pdf'' then
                  (case blob_body res of
                     Inl e \<Rightarrow> ([Post url payload], Inl e)
                   | Inr blob \<Rightarrow>
                       ([Post url payload, CreateObjectURL blob,
                         SetLocationHref (createObjectURL env blob)],
                        Inr ()))
                else
                  (case try_catch (json_body res) (\<lambda>e. Inr (JObject [])) of
                     Inl e \<Rightarrow> ([Post url payload], Inl e)
                   | Inr parsed \<Rightarrow> ([Post url payload], Inr ()))))"

text \<open>
  \<open>onSubmit\<close>: the state it leaves, its effects in order, and the error its promise
  rejects with, if any. \<open>getTimezoneOffsetISO\<close> is called outside the \<open>try\<close>.
\<close>

definition onSubmit ::
  "submit_env \<Rightarrow> form_state \<Rightarrow> FormData \<Rightarrow> fetch_result
     \<Rightarrow> form_state \<times> submit_effect list \<times> js_error option" where
  "onSubmit env st data fr =
     (case selectedPlace st of
        None \<Rightarrow> (st, [SetError ''birthPlace'' msg_select_city], None)
      | Some sp \<Rightarrow>
          if or_else (WEBHOOK_URL env) [] = [] then
            (st, [ConsoleError_text msg_url_undefined, Alert msg_config_missing], None)
          else
            (case getTimezoneOffsetISO env (timezone sp) (now_ms env) of
               Inl e \<Rightarrow> (st, [], Some e)
             | Inr timezoneOffset \<Rightarrow>
                 (case onSubmit_try env (or_else (WEBHOOK_URL env) [])
                         (make_payload data sp timezoneOffset) fr of
                    (effs, Inr done) \<Rightarrow> (st, effs, None)
                  | (effs, Inl err) \<Rightarrow>
                      (st, effs @ [ConsoleError_value err, Alert msg_generic_failure], None))))"

text \<open>Counting the alerts and the requests among the effects.\<close>

fun is_alert :: "submit_effect \<Rightarrow> bool" where
  "is_alert (Alert m) = True"
| "is_alert eff = False"

fun is_post :: "submit_effect \<Rightarrow> bool" where
  "is_post (Post url payload) = True"
| "is_post eff = False"

subsection \<open>The place field inside the form\<close>

text \<open>
  The props the form gives the autocomplete: \<open>onChange\<close> is \<open>field.onChange\<close>, which
  stores the text as the value of \<open>birthPlace\<close>; \<open>onPlaceSelect\<close> stores the place
  (and, for a place, calls \<open>form.clearErrors\<close>, which touches neither).
\<close>

definition field_onChange :: "string \<Rightarrow> form_state \<Rightarrow> form_state" where
  "field_onChange v st = st\<lparr>form_values := (form_values st)\<lparr>v_birthPlace := Some v\<rparr>\<rparr>"

definition onPlaceSelect :: "Place option \<Rightarrow> form_state \<Rightarrow> form_state" where
  "onPlaceSelect place st = st\<lparr>selectedPlace := place\<rparr>"

text \<open>
  The page: both components, and the number of geocoding requests in flight.
\<close>

record app_state =
  ac :: ac_state
  form :: form_state
  inflight :: nat

definition deliver :: "app_state \<Rightarrow> ac_effect \<Rightarrow> app_state" where
  "deliver s eff =
     (case eff of
        OnChange v \<Rightarrow> s\<lparr>form := field_onChange v (form s)\<rparr>
      | OnPlaceSelect place \<Rightarrow> s\<lparr>form := onPlaceSelect place (form s)\<rparr>
      | PreventDefault \<Rightarrow> s
      | GeoFetch term \<Rightarrow> s\<lparr>inflight := inflight s + 1\<rparr>)"

definition handled_by :: "app_state \<Rightarrow> handled \<Rightarrow> app_state" where
  "handled_by s h = (case h of (a, effs, thrown) \<Rightarrow> foldl deliver (s\<lparr>ac := a\<rparr>) effs)"

text \<open>
  What can happen to the page: the user edits the place text, presses a key in
  it, clicks the \<open>i\<close>-th suggestion, the field's blur timer fires, another field
  of the form is edited, the form is submitted; the search effect runs with a
  debounced term, and a geocoding request in flight settles.
\<close>

datatype event =
    TextEdit string
  | KeyDown string
  | ClickSuggestion nat
  | BlurTimeout bool
  | EditOtherFields FormValues
  | Submit submit_env FormData fetch_result
  | SearchEffect string
  | SearchSettled geo_result

definition step :: "tzlookup \<Rightarrow> app_state \<Rightarrow> event \<Rightarrow> app_state" where
  "step tzl s ev =
     (case ev of
        TextEdit v \<Rightarrow> foldl deliver s (inputChange v)
      | KeyDown key \<Rightarrow> handled_by s (handleKeyDown tzl key (ac s))
      | ClickSuggestion i \<Rightarrow> handled_by s (clickSuggestion tzl i (ac s))
      | BlurTimeout focusInList \<Rightarrow> s\<lparr>ac := blurTimeout focusInList (ac s)\<rparr>
      | EditOtherFields v \<Rightarrow>
          s\<lparr>form := (form s)\<lparr>form_values := v\<lparr>v_birthPlace := v_birthPlace (form_values (form s))\<rparr>\<rparr>\<rparr>
      | Submit env data fr \<Rightarrow> s\<lparr>form := fst (onSubmit env (form s) data fr)\<rparr>
      | SearchEffect term \<Rightarrow>
          (case searchEffect term (ac s) of (a, effs) \<Rightarrow> foldl deliver (s\<lparr>ac := a\<rparr>) effs)
      | SearchSettled r \<Rightarrow>
          if inflight s = 0 then s
          else s\<lparr>ac := searchPlaces_settled r (ac s), inflight := inflight s - 1\<rparr>)"

definition run :: "tzlookup \<Rightarrow> app_state \<Rightarrow> event list \<Rightarrow> app_state" where
  "run tzl s evs = foldl (step tzl) s evs"

text \<open>The page as mounted: the initial values of the \<open>useState\<close> cells, an empty form.\<close>

definition app_init :: app_state where
  "app_init = \<lparr>
     ac = \<lparr> suggestions = [], isLoading = False, isOpen = False, selectedIndex = - 1 \<rparr>,
     form = \<lparr> selectedPlace = None,
              form_values = \<lparr> v_fullName = None, v_birthDate = None, v_birthTime = None,
                              v_birthPlace = None, v_email = None \<rparr> \<rparr>,
     inflight = 0 \<rparr>"

text \<open>
  Loading the module and mounting the form: the module reads \<open>WEBHOOK_URL\<close> into a
  constant and checks nothing, and the component starts from its initial cells.
  Neither alerts, logs or requests anything. \<open>event_effects\<close> gives the alerts,
  logs, requests and form errors that an event makes: only \<open>onSubmit\<close> makes any.
\<close>

definition mount :: "submit_env \<Rightarrow> app_state \<times> submit_effect list" where
  "mount env = (app_init, [])"

definition event_effects :: "app_state \<Rightarrow> event \<Rightarrow> submit_effect list" where
  "event_effects s ev =
     (case ev of
        Submit env data fr \<Rightarrow> fst (snd (onSubmit env (form s) data fr))
      | _ \<Rightarrow> [])"

definition is_edit :: "event \<Rightarrow> bool" where
  "is_edit ev = (case ev of TextEdit v \<Rightarrow> True | _ \<Rightarrow> False)"

definition is_selection :: "event \<Rightarrow> bool" where
  "is_selection ev =
     (case ev of KeyDown key \<Rightarrow> key = ''Enter'' | ClickSuggestion i \<Rightarrow> True | _ \<Rightarrow> False)"

text \<open>
  The highlighted index is \<open>-1\<close> or more, and within the list whenever there is one.
\<close>

definition index_ok :: "ac_state \<Rightarrow> bool" where
  "index_ok a = (- 1 \<le> selectedIndex a
      \<and> (suggestions a \<noteq> [] \<longrightarrow> selectedIndex a \<le> int (length (suggestions a)) - 1))"

subsection \<open>Sample inputs\<close>

definition sample_suggestion :: PlaceSuggestion where
  "sample_suggestion = \<lparr>
     prop_formatted = ''Santos, SP, Brasil'', prop_name = None, prop_city = Some ''Santos'',
     prop_state = Some ''SP'', prop_country = Some ''Brasil'', prop_country_code = Some ''br'',
     prop_lat = - 24, prop_lon = - 46, prop_place_id = ''51a'',
     prop_timezone = Some (Some ''America/Sao_Paulo'') \<rparr>"

definition sample_place :: Place where
  "sample_place = \<lparr> city = ''Santos'', admin = Some ''SP'', country = ''Brasil'',
     countryCode = ''br'', lat = - 24, lon = - 46, timezone = ''America/Sao_Paulo'',
     provider = ''geoapify'', placeId = ''51a'' \<rparr>"

definition select_trace :: "event list" where
  "select_trace =
     [TextEdit ''sa'',
      SearchEffect ''sa'',
      SearchSettled (GeoResponse True (Inr (Some [sample_suggestion]))),
      KeyDown ''ArrowDown'',
      KeyDown ''Enter'',
      BlurTimeout False]"

definition sample_suggestion2 :: PlaceSuggestion where
  "sample_suggestion2 = \<lparr>
     prop_formatted = ''Lisboa, Portugal'', prop_name = Some ''Lisboa'', prop_city = None,
     prop_state = None, prop_country = Some ''Portugal'', prop_country_code = Some ''pt'',
     prop_lat = 38, prop_lon = - 9, prop_place_id = ''7c2'',
     prop_timezone = Some (Some ''Europe/Lisbon'') \<rparr>"

definition sample_place2 :: Place where
  "sample_place2 = \<lparr> city = ''Lisboa'', admin = None, country = ''Portugal'',
     countryCode = ''pt'', lat = 38, lon = - 9, timezone = ''Europe/Lisbon'',
     provider = ''geoapify'', placeId = ''7c2'' \<rparr>"

definition open_state :: "int \<Rightarrow> ac_state" where
  "open_state i = \<lparr> suggestions = [sample_suggestion, sample_suggestion2], isLoading = False,
     isOpen = True, selectedIndex = i \<rparr>"



definition stale_state :: ac_state where
  "stale_state = \<lparr> suggestions = [], isLoading = False, isOpen = True, selectedIndex = 0 \<rparr>"

definition tzlookup_sample :: tzlookup where
  "tzlookup_sample la lo =
     (if \<not> (- 90 \<le> la \<and> la \<le> 90 \<and> - 180 \<le> lo \<and> lo \<le> 180)
      then Inl (Error ''invalid coordinates'')
      else if la < 0 \<and> lo < 0 then Inr ''America/Sao_Paulo''
      else Inr [])"

definition stale_trace :: "event list" where
  "stale_trace =
     [SearchEffect ''sa'',
      SearchSettled (GeoResponse True (Inr (Some [sample_suggestion]))),
      KeyDown ''ArrowDown'',
      SearchEffect ''sao'',
      SearchSettled (GeoRejected (Error ''Failed to fetch''))]"

text \<open>
  A time zone database with three zones, and a page submitted at
  2024-06-15T17:30:00.123Z from two browsers: one set to UTC, one to Brasilia time.
\<close>

definition sample_url :: string where
  "sample_url = ''https://n8n.example/webhook/mapa''"

definition zones_sample :: "string \<Rightarrow> int \<Rightarrow> int option" where
  "zones_sample z t =
     (if z = ''America/Sao_Paulo'' then Some (- 180)
      else if z = ''Asia/Tokyo'' then Some 540
      else if z = ''UTC'' then Some 0
      else None)"

definition blob_url_sample :: "string \<Rightarrow> string" where
  "blob_url_sample blob = ''blob:https://astrobot.example/1''"

definition env_utc :: submit_env where
  "env_utc = \<lparr> WEBHOOK_URL = Some sample_url,
     now_ms = 1718472600123, local_offset = 0, zone_offset = zones_sample,
     createObjectURL = blob_url_sample \<rparr>"

definition env_brt :: submit_env where
  "env_brt = env_utc \<lparr> local_offset := - 180 \<rparr>"

definition sample_data :: FormData where
  "sample_data = \<lparr> fullName = ''Ana Lima'', birthDate = \<lparr> year = 2024, month = 6, day = 15 \<rparr>,
     birthTime = ''14:30'', birthPlace = ''Santos, SP, Brasil'', email = ''ana@example.org'' \<rparr>"

definition sample_form :: form_state where
  "sample_form = \<lparr> selectedPlace = Some sample_place,
     form_values = \<lparr> v_fullName = Some ''Ana Lima'',
       v_birthDate = Some \<lparr> year = 2024, month = 6, day = 15 \<rparr>, v_birthTime = Some ''14:30'',
       v_birthPlace = Some ''Santos, SP, Brasil'', v_email = Some ''ana@example.org'' \<rparr> \<rparr>"

definition response_html :: response where
  "response_html = \<lparr> ok = True, status = 200, content_type = Some ''text/html; charset=utf-8'',
     text_body = Inr ''<html>Mapa</html>'', blob_body = Inr ''<html>Mapa</html>'',
     json_body = Inl (Error ''SyntaxError: Unexpected token <'') \<rparr>"

definition response_pdf :: response where
  "response_pdf = \<lparr> ok = True, status = 200, content_type = Some ''application/pdf'',
     text_body = Inr ''%PDF-1.7'', blob_body = Inr ''%PDF-1.7'',
     json_body = Inl (Error ''SyntaxError: Unexpected token %'') \<rparr>"

definition response_plain :: response where
  "response_plain = \<lparr> ok = True, status = 200, content_type = None,
     text_body = Inr ''accepted'', blob_body = Inr ''accepted'',
     json_body = Inl (Error ''SyntaxError: Unexpected token a'') \<rparr>"


section \<open>Timezone derivation\<close>

lemma getTimezone_cases:
  "getTimezone tzl la lo api =
     Inr (if or_else api [] \<noteq> [] then or_else api []
          else case tzl la lo of Inl e \<Rightarrow> ''UTC'' | Inr z \<Rightarrow> if z \<noteq> [] then z else ''UTC'')"
  by (simp add: getTimezone_def try_catch_def split: sum.splits)

text \<open>
  C2. \<open>getTimezone\<close> always returns normally, with a non-empty name: the provider's
  name verbatim when one is supplied (a non-empty string); otherwise the name the
  coordinate lookup returns; and exactly \<open>UTC\<close> when that lookup throws or returns
  the empty string. Hence \<open>selectSuggestion\<close> never throws, and the Place it
  hands to \<open>onPlaceSelect\<close> has a non-empty timezone, which is \<open>getTimezone\<close>'s
  result on the suggestion's coordinates and provider timezone name.
\<close>

theorem C2_getTimezone_three_tier:
  "(\<exists>tz. getTimezone tzl la lo api = Inr tz \<and> tz \<noteq> [])
   \<and> (\<forall>name. api = Some name \<and> name \<noteq> [] \<longrightarrow> getTimezone tzl la lo api = Inr name)
   \<and> (\<forall>z. (api = None \<or> api = Some []) \<and> tzl la lo = Inr z \<and> z \<noteq> []
          \<longrightarrow> getTimezone tzl la lo api = Inr z)
   \<and> ((api = None \<or> api = Some []) \<and> (tzl la lo = Inr [] \<or> (\<exists>e. tzl la lo = Inl e))
          \<longrightarrow> getTimezone tzl la lo api = Inr ''UTC'')
   \<and> (\<exists>place. selectSuggestion tzl sg st
          = (st\<lparr>isOpen := False\<rparr>,
             [OnChange (formatSuggestion sg), OnPlaceSelect (Some place)], None)
        \<and> timezone place \<noteq> []
        \<and> getTimezone tzl (prop_lat sg) (prop_lon sg)
            (case prop_timezone sg of None \<Rightarrow> None | Some t \<Rightarrow> t) = Inr (timezone place))"
proof -
  have total: "\<exists>tz. getTimezone tzl' la' lo' api' = Inr tz \<and> tz \<noteq> []" for tzl' la' lo' api'
    by (simp add: getTimezone_cases split: sum.splits)
  have verbatim: "\<forall>name. api = Some name \<and> name \<noteq> [] \<longrightarrow> getTimezone tzl la lo api = Inr name"
    by (simp add: getTimezone_cases or_else_def)
  have looked_up: "\<forall>z. (api = None \<or> api = Some []) \<and> tzl la lo = Inr z \<and> z \<noteq> []
          \<longrightarrow> getTimezone tzl la lo api = Inr z"
    by (auto simp: getTimezone_cases or_else_def)
  have fallback: "(api = None \<or> api = Some []) \<and> (tzl la lo = Inr [] \<or> (\<exists>e. tzl la lo = Inl e))
          \<longrightarrow> getTimezone tzl la lo api = Inr ''UTC''"
    by (auto simp: getTimezone_cases or_else_def)
  obtain tz where tz: "getTimezone tzl (prop_lat sg) (prop_lon sg)
            (case prop_timezone sg of None \<Rightarrow> None | Some t \<Rightarrow> t) = Inr tz" "tz \<noteq> []"
    using total by blast
  have place: "\<exists>place. selectSuggestion tzl sg st
          = (st\<lparr>isOpen := False\<rparr>,
             [OnChange (formatSuggestion sg), OnPlaceSelect (Some place)], None)
        \<and> timezone place \<noteq> []
        \<and> getTimezone tzl (prop_lat sg) (prop_lon sg)
            (case prop_timezone sg of None \<Rightarrow> None | Some t \<Rightarrow> t) = Inr (timezone place)"
    using tz by (simp add: selectSuggestion_def makePlace_def)
  from total verbatim looked_up fallback place show ?thesis by blast
qed

theorem C2_getTimezone_three_tier_witness:
  "getTimezone tzlookup_sample (- 24) (- 46) (Some ''Europe/Lisbon'') = Inr ''Europe/Lisbon''
   \<and> getTimezone tzlookup_sample (- 24) (- 46) None = Inr ''America/Sao_Paulo''
   \<and> getTimezone tzlookup_sample 10 10 None = Inr ''UTC''
   \<and> getTimezone tzlookup_sample 91 0 (Some []) = Inr ''UTC''"
  using C2_getTimezone_three_tier [where tzl = tzlookup_sample and la = "- 24" and lo = "- 46"
          and api = "Some ''Europe/Lisbon''"]
        C2_getTimezone_three_tier [where tzl = tzlookup_sample and la = "- 24" and lo = "- 46"
          and api = None]
        C2_getTimezone_three_tier [where tzl = tzlookup_sample and la = 10 and lo = 10
          and api = None]
        C2_getTimezone_three_tier [where tzl = tzlookup_sample and la = 91 and lo = 0
          and api = "Some []"]
  by (simp add: tzlookup_sample_def)

section \<open>The autocomplete\<close>

lemma stale_state_reachable: "ac (run tzlookup_sample app_init stale_trace) = stale_state"
  by (simp add: run_def stale_trace_def app_init_def step_def searchEffect_def deliver_def
      searchPlaces_settled_def searchPlaces_try_def handled_by_def handleKeyDown_def stale_state_def)

text \<open>
  C7. When the debounced term has fewer than 2 characters, the search effect
  empties the suggestion list, closes the dropdown and makes no geocoding request
  (it has no effect at all on the outside, and no request is added to those in
  flight).
\<close>

theorem C7_short_query_no_request:
  "length term < 2 \<Longrightarrow>
     searchEffect term st = (st\<lparr>suggestions := [], isOpen := False\<rparr>, [])
     \<and> suggestions (fst (searchEffect term st)) = []
     \<and> \<not> isOpen (fst (searchEffect term st))
     \<and> (\<forall>t. GeoFetch t \<notin> set (snd (searchEffect term st)))
     \<and> inflight (step tzl s (SearchEffect term)) = inflight s"
  by (simp add: searchEffect_def step_def)

theorem C7_short_query_no_request_witness:
  "searchEffect ''s'' \<lparr>suggestions = [sample_suggestion], isLoading = False, isOpen = True,
                        selectedIndex = 0\<rparr>
     = (\<lparr>suggestions = [], isLoading = False, isOpen = False, selectedIndex = 0\<rparr>, [])"
  using C7_short_query_no_request [of "''s''"
          "\<lparr>suggestions = [sample_suggestion], isLoading = False, isOpen = True, selectedIndex = 0\<rparr>"]
  by simp

text \<open>
  C10. Enter never selects out of range. With the dropdown open and no suggestion
  at \<open>selectedIndex\<close>, Enter changes nothing and calls neither callback (it only
  cancels the default action); whenever Enter does report a place, the index is
  within the list and the handler did exactly the Selection of the suggestion at
  that index. The case of an index \<open>\<ge> 0\<close> with nothing there is reachable: after a
  search that succeeded, Down, and a search that failed, the page is in
  \<open>stale_state\<close> (open, index 0, no suggestions).
\<close>

theorem C10_enter_guard:
  "(isOpen st \<and> index_at (suggestions st) (selectedIndex st) = None
      \<longrightarrow> handleKeyDown tzl ''Enter'' st = (st, [PreventDefault], None))
   \<and> (\<forall>p. OnPlaceSelect p \<in> set (fst (snd (handleKeyDown tzl ''Enter'' st)))
        \<longrightarrow> 0 \<le> selectedIndex st \<and> selectedIndex st < int (length (suggestions st))
            \<and> handleKeyDown tzl ''Enter'' st
                = (case selectSuggestion tzl (suggestions st ! nat (selectedIndex st)) st of
                     (st', effs, thrown) \<Rightarrow> (st', PreventDefault # effs, thrown)))
   \<and> ac (run tzlookup_sample app_init stale_trace) = stale_state
   \<and> isOpen stale_state \<and> 0 \<le> selectedIndex stale_state
   \<and> index_at (suggestions stale_state) (selectedIndex stale_state) = None"
proof -
  have guard: "isOpen st \<and> index_at (suggestions st) (selectedIndex st) = None
      \<longrightarrow> handleKeyDown tzl ''Enter'' st = (st, [PreventDefault], None)"
    by (simp add: handleKeyDown_def)
  have in_range: "\<forall>p. OnPlaceSelect p \<in> set (fst (snd (handleKeyDown tzl ''Enter'' st)))
        \<longrightarrow> 0 \<le> selectedIndex st \<and> selectedIndex st < int (length (suggestions st))
            \<and> handleKeyDown tzl ''Enter'' st
                = (case selectSuggestion tzl (suggestions st ! nat (selectedIndex st)) st of
                     (st', effs, thrown) \<Rightarrow> (st', PreventDefault # effs, thrown))"
    by (auto simp: handleKeyDown_def index_at_def split: if_splits option.splits)
  have stale: "isOpen stale_state \<and> 0 \<le> selectedIndex stale_state
      \<and> index_at (suggestions stale_state) (selectedIndex stale_state) = None"
    by (simp add: stale_state_def index_at_def)
  from guard in_range stale stale_state_reachable show ?thesis by blast
qed

theorem C10_enter_guard_witness:
  "handleKeyDown tzlookup_sample ''Enter'' (ac (run tzlookup_sample app_init stale_trace))
     = (stale_state, [PreventDefault], None)"
  using C10_enter_guard [of stale_state tzlookup_sample]
  by (simp add: stale_state_reachable)

lemma run_snoc: "run tzl s (evs @ [ev]) = step tzl (run tzl s evs) ev"
  by (simp add: run_def)

lemma ac_deliver: "ac (deliver t eff) = ac t"
  by (cases eff) (simp_all add: deliver_def)

lemma ac_foldl_deliver: "ac (foldl deliver t effs) = ac t"
  by (induction effs arbitrary: t) (simp_all add: ac_deliver)

lemma ac_handled_by: "ac (handled_by s h) = fst h"
  by (cases h) (simp add: handled_by_def ac_foldl_deliver)

lemma selectSuggestion_cells:
  "suggestions (fst (selectSuggestion tzl sg a)) = suggestions a"
  "selectedIndex (fst (selectSuggestion tzl sg a)) = selectedIndex a"
  by (simp_all add: selectSuggestion_def split: sum.splits)

lemma index_ok_select: "index_ok a \<Longrightarrow> index_ok (fst (selectSuggestion tzl sg a))"
  by (simp add: index_ok_def selectSuggestion_cells)

lemma index_ok_key:
  assumes a: "index_ok a"
  shows "index_ok (fst (handleKeyDown tzl key a))"
proof (cases "isOpen a")
  case False
  then show ?thesis using a by (simp add: handleKeyDown_def)
next
  case True
  consider (down) "key = ''ArrowDown''" | (up) "key = ''ArrowUp''" | (enter) "key = ''Enter''"
    | (escape) "key = ''Escape''"
    | (other) "key \<notin> {''ArrowDown'', ''ArrowUp'', ''Enter'', ''Escape''}"
    by blast
  then show ?thesis
  proof cases
    case down
    with True a show ?thesis by (simp add: handleKeyDown_def index_ok_def)
  next
    case up
    with True a show ?thesis by (auto simp: handleKeyDown_def index_ok_def)
  next
    case enter
    show ?thesis
    proof (cases "index_at (suggestions a) (selectedIndex a)")
      case None
      with True enter a show ?thesis by (simp add: handleKeyDown_def)
    next
      case (Some sg)
      have "fst (handleKeyDown tzl key a) = a \<or>
            fst (handleKeyDown tzl key a) = fst (selectSuggestion tzl sg a)"
        using True enter Some by (simp add: handleKeyDown_def split: prod.splits)
      with a index_ok_select [OF a, of tzl sg] show ?thesis by auto
    qed
  next
    case escape
    with True a show ?thesis by (simp add: handleKeyDown_def index_ok_def)
  next
    case other
    with True a show ?thesis by (simp add: handleKeyDown_def)
  qed
qed

lemma index_ok_click: "index_ok a \<Longrightarrow> index_ok (fst (clickSuggestion tzl i a))"
  by (simp add: clickSuggestion_def index_ok_select)

lemma index_ok_settled: "index_ok a \<Longrightarrow> index_ok (searchPlaces_settled r a)"
  by (simp add: searchPlaces_settled_def index_ok_def split: sum.splits)

lemma index_ok_effect: "index_ok a \<Longrightarrow> index_ok (fst (searchEffect term a))"
  by (simp add: searchEffect_def index_ok_def)

lemma index_ok_blur: "index_ok a \<Longrightarrow> index_ok (blurTimeout b a)"
  by (simp add: blurTimeout_def index_ok_def)

lemma index_ok_step: "index_ok (ac s) \<Longrightarrow> index_ok (ac (step tzl s ev))"
proof (cases ev)
  case (SearchEffect q)
  assume "index_ok (ac s)"
  then show ?thesis
    using index_ok_effect [of "ac s" q] SearchEffect
    by (cases "searchEffect q (ac s)") (simp add: step_def ac_foldl_deliver)
qed (simp_all add: step_def ac_foldl_deliver ac_handled_by index_ok_key index_ok_click
      index_ok_settled index_ok_blur)

lemma reachable_index_ok: "index_ok (ac (run tzl app_init evs))"
proof (induction evs rule: rev_induct)
  case Nil
  show ?case by (simp add: run_def app_init_def index_ok_def)
next
  case (snoc ev evs)
  then show ?case by (simp add: run_snoc index_ok_step)
qed

text \<open>
  C8, as stated, fails in a state the page reaches (a search that succeeded,
  Down, a search that failed): the dropdown is open, the list is empty and the
  index is 0. There Down leaves the index at 0, where the table of the
  specification clamps it to the last suggestion's index, \<open>-1\<close>.
\<close>

theorem C8_counterexample:
  "ac (run tzlookup_sample app_init stale_trace) = stale_state
   \<and> isOpen stale_state
   \<and> selectedIndex (fst (handleKeyDown tzlookup_sample ''ArrowDown'' stale_state)) = 0
   \<and> spec_keyboard_index ''ArrowDown'' (length (suggestions stale_state))
        (selectedIndex stale_state) = - 1"
  using stale_state_reachable
  by (simp add: stale_state_def handleKeyDown_def spec_keyboard_index_def)

text \<open>
  C8, amended. While the dropdown is open: Down moves the index one further when
  that does not pass the last suggestion and otherwise leaves it where it is; Up
  moves it one back but not below \<open>-1\<close>; Enter, with the index inside the list,
  does exactly the Selection of the suggestion at that index, and with the index
  outside the list only cancels the default action; Escape closes the dropdown
  and resets the index to \<open>-1\<close>; any other key changes nothing. While it is
  closed, every key changes nothing. On the index this is the table of the
  specification (\<open>spec_keyboard_index\<close>) whenever the index is not already past
  the last suggestion, as in every reachable state that has a suggestion.
\<close>

theorem C8_keyboard_amended:
  "(isOpen st \<longrightarrow>
      handleKeyDown tzl ''ArrowDown'' st
        = (st\<lparr>selectedIndex :=
                 (if selectedIndex st + 1 \<le> int (length (suggestions st)) - 1
                  then selectedIndex st + 1 else selectedIndex st)\<rparr>,
           [PreventDefault], None)
      \<and> handleKeyDown tzl ''ArrowUp'' st
        = (st\<lparr>selectedIndex := max (selectedIndex st - 1) (- 1)\<rparr>, [PreventDefault], None)
      \<and> (0 \<le> selectedIndex st \<and> selectedIndex st < int (length (suggestions st)) \<longrightarrow>
           handleKeyDown tzl ''Enter'' st
             = (case selectSuggestion tzl (suggestions st ! nat (selectedIndex st)) st of
                  (st', effs, thrown) \<Rightarrow> (st', PreventDefault # effs, thrown)))
      \<and> (selectedIndex st < 0 \<or> int (length (suggestions st)) \<le> selectedIndex st \<longrightarrow>
           handleKeyDown tzl ''Enter'' st = (st, [PreventDefault], None))
      \<and> handleKeyDown tzl ''Escape'' st = (st\<lparr>isOpen := False, selectedIndex := - 1\<rparr>, [], None)
      \<and> (key \<notin> {''ArrowDown'', ''ArrowUp'', ''Enter'', ''Escape''}
           \<longrightarrow> handleKeyDown tzl key st = (st, [], None))
      \<and> (selectedIndex st \<le> int (length (suggestions st)) - 1
           \<longrightarrow> selectedIndex (fst (handleKeyDown tzl key st))
               = spec_keyboard_index key (length (suggestions st)) (selectedIndex st)))
   \<and> (\<not> isOpen st \<longrightarrow> handleKeyDown tzl key st = (st, [], None))
   \<and> (isOpen (ac (run tzl app_init evs)) \<and> suggestions (ac (run tzl app_init evs)) \<noteq> []
        \<longrightarrow> selectedIndex (fst (handleKeyDown tzl key (ac (run tzl app_init evs))))
            = spec_keyboard_index key (length (suggestions (ac (run tzl app_init evs))))
                (selectedIndex (ac (run tzl app_init evs))))"
proof -
  have down: "isOpen st \<Longrightarrow> handleKeyDown tzl ''ArrowDown'' st
        = (st\<lparr>selectedIndex :=
                 (if selectedIndex st + 1 \<le> int (length (suggestions st)) - 1
                  then selectedIndex st + 1 else selectedIndex st)\<rparr>,
           [PreventDefault], None)"
    by (simp add: handleKeyDown_def)
  have up: "isOpen st \<Longrightarrow> handleKeyDown tzl ''ArrowUp'' st
        = (st\<lparr>selectedIndex := max (selectedIndex st - 1) (- 1)\<rparr>, [PreventDefault], None)"
    by (simp add: handleKeyDown_def max_def)
  have enter_in: "isOpen st \<Longrightarrow>
      0 \<le> selectedIndex st \<and> selectedIndex st < int (length (suggestions st)) \<Longrightarrow>
           handleKeyDown tzl ''Enter'' st
             = (case selectSuggestion tzl (suggestions st ! nat (selectedIndex st)) st of
                  (st', effs, thrown) \<Rightarrow> (st', PreventDefault # effs, thrown))"
    by (simp add: handleKeyDown_def index_at_def)
  have enter_out: "isOpen st \<Longrightarrow>
      selectedIndex st < 0 \<or> int (length (suggestions st)) \<le> selectedIndex st \<Longrightarrow>
           handleKeyDown tzl ''Enter'' st = (st, [PreventDefault], None)"
    by (auto simp: handleKeyDown_def index_at_def)
  have escape: "isOpen st \<Longrightarrow>
      handleKeyDown tzl ''Escape'' st = (st\<lparr>isOpen := False, selectedIndex := - 1\<rparr>, [], None)"
    by (simp add: handleKeyDown_def)
  have other: "isOpen st \<Longrightarrow> key \<notin> {''ArrowDown'', ''ArrowUp'', ''Enter'', ''Escape''}
           \<Longrightarrow> handleKeyDown tzl key st = (st, [], None)"
    by (simp add: handleKeyDown_def)
  have sel: "selectedIndex (fst (selectSuggestion tzl sg a)) = selectedIndex a" for sg a
    by (simp add: selectSuggestion_def split: sum.splits)
  have clamp: "isOpen a \<Longrightarrow> selectedIndex a \<le> int (length (suggestions a)) - 1
           \<Longrightarrow> selectedIndex (fst (handleKeyDown tzl key a))
               = spec_keyboard_index key (length (suggestions a)) (selectedIndex a)" for a
    using sel [of _ a]
    by (auto simp: handleKeyDown_def spec_keyboard_index_def selectSuggestion_def
        split: option.splits prod.splits sum.splits)
  have closed: "\<not> isOpen st \<Longrightarrow> handleKeyDown tzl key st = (st, [], None)"
    by (simp add: handleKeyDown_def)
  have reachable: "isOpen (ac (run tzl app_init evs))
        \<and> suggestions (ac (run tzl app_init evs)) \<noteq> []
        \<longrightarrow> selectedIndex (fst (handleKeyDown tzl key (ac (run tzl app_init evs))))
            = spec_keyboard_index key (length (suggestions (ac (run tzl app_init evs))))
                (selectedIndex (ac (run tzl app_init evs)))"
    using reachable_index_ok [of tzl evs] clamp [of "ac (run tzl app_init evs)"]
    by (simp add: index_ok_def)
  from down up enter_in enter_out escape other clamp [of st] closed reachable
  show ?thesis by blast
qed

theorem C8_keyboard_amended_witness:
  "handleKeyDown tzlookup_sample ''ArrowDown'' (open_state 0)
     = (open_state 1, [PreventDefault], None)
   \<and> handleKeyDown tzlookup_sample ''ArrowDown'' (open_state 1)
     = (open_state 1, [PreventDefault], None)
   \<and> handleKeyDown tzlookup_sample ''ArrowUp'' (open_state 1)
     = (open_state 0, [PreventDefault], None)
   \<and> handleKeyDown tzlookup_sample ''ArrowUp'' (open_state 0)
     = (open_state (- 1), [PreventDefault], None)
   \<and> handleKeyDown tzlookup_sample ''Enter'' (open_state 1)
     = ((open_state 1)\<lparr>isOpen := False\<rparr>,
        [PreventDefault, OnChange ''Lisboa, Portugal'', OnPlaceSelect (Some sample_place2)], None)
   \<and> handleKeyDown tzlookup_sample ''Enter'' (open_state (- 1))
     = (open_state (- 1), [PreventDefault], None)
   \<and> handleKeyDown tzlookup_sample ''Enter'' (open_state 2)
     = (open_state 2, [PreventDefault], None)
   \<and> handleKeyDown tzlookup_sample ''Escape'' (open_state 1)
     = ((open_state (- 1))\<lparr>isOpen := False\<rparr>, [], None)
   \<and> handleKeyDown tzlookup_sample ''Tab'' (open_state 1) = (open_state 1, [], None)
   \<and> handleKeyDown tzlookup_sample ''ArrowDown'' ((open_state 0)\<lparr>isOpen := False\<rparr>)
     = ((open_state 0)\<lparr>isOpen := False\<rparr>, [], None)
   \<and> spec_keyboard_index ''ArrowDown'' 2 1 = 1"
  using C8_keyboard_amended [of "open_state 0" tzlookup_sample "''Tab''" "[]"]
        C8_keyboard_amended [of "open_state 1" tzlookup_sample "''Tab''" "[]"]
        C8_keyboard_amended [of "open_state (- 1)" tzlookup_sample "''ArrowDown''" "[]"]
        C8_keyboard_amended [of "open_state 2" tzlookup_sample "''Tab''" "[]"]
        C8_keyboard_amended [of "(open_state 0)\<lparr>isOpen := False\<rparr>" tzlookup_sample
           "''ArrowDown''" "[]"]
  by (simp add: open_state_def spec_keyboard_index_def selectSuggestion_def makePlace_def
      getTimezone_def or_else_def formatSuggestion_def sample_suggestion2_def sample_place2_def)

section \<open>The place field and the form\<close>

lemma onSubmit_state: "fst (onSubmit env st data fr) = st"
  by (simp add: onSubmit_def split: option.splits sum.splits prod.splits)

lemma place_after_select:
  "selectedPlace (form (handled_by s (selectSuggestion tzl sg a))) = selectedPlace (form s)
   \<or> selectedPlace (form (handled_by s (selectSuggestion tzl sg a))) \<noteq> None"
  by (simp add: selectSuggestion_def handled_by_def deliver_def onPlaceSelect_def
      field_onChange_def split: sum.splits)

lemma handled_by_PreventDefault:
  "form (handled_by s (a, PreventDefault # effs, thrown)) = form (handled_by s (a, effs, thrown))"
  by (simp add: handled_by_def deliver_def)

lemma place_after_key:
  "selectedPlace (form (handled_by s (handleKeyDown tzl key a))) = selectedPlace (form s)
   \<or> (key = ''Enter''
       \<and> selectedPlace (form (handled_by s (handleKeyDown tzl key a))) \<noteq> None)"
proof (cases "isOpen a \<and> key = ''Enter''")
  case False
  then show ?thesis
    by (auto simp: handleKeyDown_def handled_by_def deliver_def)
next
  case True
  show ?thesis
  proof (cases "index_at (suggestions a) (selectedIndex a)")
    case None
    with True show ?thesis by (simp add: handleKeyDown_def handled_by_def deliver_def)
  next
    case (Some sg)
    obtain a' effs thrown where sel: "selectSuggestion tzl sg a = (a', effs, thrown)"
      by (cases "selectSuggestion tzl sg a") auto
    have "0 \<le> selectedIndex a"
      using Some by (simp add: index_at_def split: if_splits)
    then have "handleKeyDown tzl key a = (a', PreventDefault # effs, thrown)"
      using True Some sel by (simp add: handleKeyDown_def)
    then have "form (handled_by s (handleKeyDown tzl key a))
               = form (handled_by s (selectSuggestion tzl sg a))"
      by (simp add: sel handled_by_PreventDefault)
    then show ?thesis
      using place_after_select [of s tzl sg a] True by auto
  qed
qed

lemma place_after_click:
  "selectedPlace (form (handled_by s (clickSuggestion tzl i a))) = selectedPlace (form s)
   \<or> selectedPlace (form (handled_by s (clickSuggestion tzl i a))) \<noteq> None"
  using place_after_select [of s tzl "suggestions a ! i" a]
  by (simp add: clickSuggestion_def handled_by_def)

lemma place_after_edit: "selectedPlace (form (step tzl s (TextEdit v))) = None"
  by (simp add: step_def inputChange_def deliver_def onPlaceSelect_def field_onChange_def)

lemma place_after_is_edit: "is_edit ev \<Longrightarrow> selectedPlace (form (step tzl s ev)) = None"
  by (cases ev) (simp_all add: is_edit_def place_after_edit)

lemma place_after_step:
  "selectedPlace (form (step tzl s ev)) = selectedPlace (form s)
   \<or> (is_edit ev \<and> selectedPlace (form (step tzl s ev)) = None)
   \<or> (is_selection ev \<and> selectedPlace (form (step tzl s ev)) \<noteq> None)"
proof (cases ev)
  case (TextEdit v)
  then show ?thesis using place_after_edit [of tzl s v] by (simp add: is_edit_def)
next
  case (KeyDown key)
  then show ?thesis using place_after_key [of s tzl key "ac s"]
    by (auto simp: step_def is_selection_def)
next
  case (ClickSuggestion i)
  then show ?thesis using place_after_click [of s tzl i "ac s"]
    by (auto simp: step_def is_selection_def)
next
  case (Submit env data fr)
  then show ?thesis by (simp add: step_def onSubmit_state)
next
  case (SearchEffect q)
  then show ?thesis
    by (simp add: step_def searchEffect_def deliver_def)
qed (simp_all add: step_def)

text \<open>
  C4. An edit of the place text calls \<open>onChange\<close> with the text and then
  \<open>onPlaceSelect(null)\<close>, after which \<open>selectedPlace\<close> is null. Hence in every
  state the page can reach from its mount: if \<open>selectedPlace\<close> holds a place, then
  that place was stored by a selection (Enter or a click on a suggestion) after
  which no edit of the text has occurred.
\<close>

theorem C4_edit_discards_place:
  "inputChange v = [OnChange v, OnPlaceSelect None]
   \<and> selectedPlace (form (step tzl s (TextEdit v))) = None
   \<and> (\<forall>p. selectedPlace (form (run tzl app_init evs)) = Some p \<longrightarrow>
        (\<exists>pre sel post. evs = pre @ sel # post \<and> is_selection sel
           \<and> selectedPlace (form (step tzl (run tzl app_init pre) sel)) = Some p
           \<and> (\<forall>e \<in> set post. \<not> is_edit e)))"
proof -
  have inv: "\<forall>p. selectedPlace (form (run tzl app_init evs)) = Some p \<longrightarrow>
        (\<exists>pre sel post. evs = pre @ sel # post \<and> is_selection sel
           \<and> selectedPlace (form (step tzl (run tzl app_init pre) sel)) = Some p
           \<and> (\<forall>e \<in> set post. \<not> is_edit e))"
  proof (induction evs rule: rev_induct)
    case Nil
    show ?case by (simp add: run_def app_init_def)
  next
    case (snoc ev evs)
    show ?case
    proof (intro allI impI)
      fix p
      assume now: "selectedPlace (form (run tzl app_init (evs @ [ev]))) = Some p"
      then have after: "selectedPlace (form (step tzl (run tzl app_init evs) ev)) = Some p"
        by (simp add: run_snoc)
      from place_after_step [of tzl "run tzl app_init evs" ev] after
        place_after_is_edit [of ev tzl "run tzl app_init evs"]
      consider (kept) "selectedPlace (form (run tzl app_init evs)) = Some p" "\<not> is_edit ev"
        | (selected) "is_selection ev"
        by (cases "is_edit ev") auto
      then show "\<exists>pre sel post. evs @ [ev] = pre @ sel # post \<and> is_selection sel
           \<and> selectedPlace (form (step tzl (run tzl app_init pre) sel)) = Some p
           \<and> (\<forall>e \<in> set post. \<not> is_edit e)"
      proof cases
        case kept
        with snoc.IH obtain pre sel post where
          split: "evs = pre @ sel # post" "is_selection sel"
            "selectedPlace (form (step tzl (run tzl app_init pre) sel)) = Some p"
            "\<forall>e \<in> set post. \<not> is_edit e"
          by blast
        have "evs @ [ev] = pre @ sel # (post @ [ev])" using split(1) by simp
        moreover have "\<forall>e \<in> set (post @ [ev]). \<not> is_edit e" using split(4) kept(2) by simp
        ultimately show ?thesis using split(2,3) by blast
      next
        case selected
        have "evs @ [ev] = evs @ ev # []" by simp
        with selected after show ?thesis by fastforce
      qed
    qed
  qed
  show ?thesis
    using inv place_after_edit [of tzl s v] by (simp add: inputChange_def)
qed

lemma select_trace_place:
  "selectedPlace (form (run tzlookup_sample app_init select_trace)) = Some sample_place"
  by (simp add: run_def select_trace_def app_init_def step_def inputChange_def deliver_def
      onPlaceSelect_def field_onChange_def searchEffect_def searchPlaces_settled_def
      searchPlaces_try_def handled_by_def handleKeyDown_def index_at_def selectSuggestion_def
      makePlace_def getTimezone_def or_else_def sample_suggestion_def sample_place_def
      formatSuggestion_def blurTimeout_def)

theorem C4_edit_discards_place_witness:
  "selectedPlace (form (run tzlookup_sample app_init select_trace)) = Some sample_place
   \<and> (\<exists>pre sel post. select_trace = pre @ sel # post \<and> is_selection sel
         \<and> selectedPlace (form (step tzlookup_sample (run tzlookup_sample app_init pre) sel))
             = Some sample_place
         \<and> (\<forall>e \<in> set post. \<not> is_edit e))
   \<and> selectedPlace (form (step tzlookup_sample (run tzlookup_sample app_init select_trace)
                             (TextEdit ''san''))) = None"
  using C4_edit_discards_place [of "''san''" tzlookup_sample
          "run tzlookup_sample app_init select_trace" select_trace]
        select_trace_place
  by simp

section \<open>The timezone offset\<close>

lemma offsetMinutes_value:
  "Math_round (real_of_int (localDate_ms env z date - date) / 60000
               + real_of_int (getTimezoneOffset env))
     = z - 2 * local_offset env"
proof -
  define r where "r = (date + z * 60000) mod 1000"
  have r: "0 \<le> r" "r < 1000" by (simp_all add: r_def)
  have "((date + z * 60000) div 1000) * 1000 = date + z * 60000 - r"
    unfolding r_def by (simp add: algebra_simps minus_mod_eq_mult_div [symmetric])
  then have diff: "localDate_ms env z date - date = (z - local_offset env) * 60000 - r"
    by (simp add: localDate_ms_def algebra_simps)
  have "real_of_int (localDate_ms env z date - date) / 60000
          + real_of_int (getTimezoneOffset env) + 1 / 2
        = real_of_int (z - 2 * local_offset env) + (1 / 2 - real_of_int r / 60000)"
    unfolding diff getTimezoneOffset_def by (simp add: field_simps)
  moreover have "0 \<le> 1 / 2 - real_of_int r / 60000" "1 / 2 - real_of_int r / 60000 < 1"
    using r by (simp_all add: field_simps)
  ultimately show ?thesis
    unfolding Math_round_def by (intro floor_unique) simp_all
qed

lemma getTimezoneOffsetISO_value:
  "zone_offset env tz date = Some z \<Longrightarrow>
     getTimezoneOffsetISO env tz date = Inr (spec_offset_string (2 * local_offset env - z))"
proof -
  assume z: "zone_offset env tz date = Some z"
  have abs: "\<bar>z - 2 * local_offset env\<bar> = \<bar>2 * local_offset env - z\<bar>" by simp
  have sign: "(z - 2 * local_offset env \<le> 0) = (0 \<le> 2 * local_offset env - z)" by auto
  show ?thesis
    unfolding getTimezoneOffsetISO_def z spec_offset_string_def
    by (simp only: option.case Let_def offsetMinutes_value abs sign)
qed

lemma offset_brt:
  "getTimezoneOffsetISO env_brt ''America/Sao_Paulo'' (now_ms env_brt) = Inr ''-03:00''"
  by (simp add: getTimezoneOffsetISO_value [where z = "- 180"] env_brt_def env_utc_def
      zones_sample_def spec_offset_string_def padStart_def String_of_nat.simps digit_char_def)

lemma offset_utc:
  "getTimezoneOffsetISO env_utc ''America/Sao_Paulo'' (now_ms env_utc) = Inr ''+03:00''"
  by (simp add: getTimezoneOffsetISO_value [where z = "- 180"] env_utc_def
      zones_sample_def spec_offset_string_def padStart_def String_of_nat.simps digit_char_def)

section \<open>Submission\<close>

lemma onSubmit_network:
  assumes "selectedPlace st = Some sp" "or_else (WEBHOOK_URL env) [] = url" "url \<noteq> []"
    and "getTimezoneOffsetISO env (timezone sp) (now_ms env) = Inr off"
  shows "onSubmit env st data fr =
     (case onSubmit_try env url (make_payload data sp off) fr of
        (effs, Inr done) \<Rightarrow> (st, effs, None)
      | (effs, Inl err) \<Rightarrow>
          (st, effs @ [ConsoleError_value err, Alert msg_generic_failure], None))"
  using assms by (simp add: onSubmit_def)


text \<open>
  C1. For the zone \<open>America/Sao_Paulo\<close>, whose offset is \<open>-03:00\<close>, and a birth date
  of 2024-06-15, the payload carries the birth date \<open>2024-06-15\<close>; but the offset
  text depends on the browser's own zone. In a browser set to UTC,
  \<open>getTimezoneOffsetISO\<close> returns \<open>+03:00\<close>, and that is what is posted; in one set
  to Tokyo time it returns \<open>+21:00\<close>; only in a browser that is itself three hours
  behind UTC does it return \<open>-03:00\<close>.
\<close>

theorem C1_offset_in_utc_browser:
  "zone_offset env_utc ''America/Sao_Paulo'' (now_ms env_utc) = Some (- 180)
   \<and> local_offset env_utc = 0
   \<and> spec_offset_string (- 180) = ''-03:00''
   \<and> getTimezoneOffsetISO env_utc ''America/Sao_Paulo'' (now_ms env_utc) = Inr ''+03:00''
   \<and> getTimezoneOffsetISO (env_utc\<lparr>local_offset := 540\<rparr>) ''America/Sao_Paulo'' (now_ms env_utc)
       = Inr ''+21:00''
   \<and> getTimezoneOffsetISO (env_utc\<lparr>local_offset := - 180\<rparr>) ''America/Sao_Paulo''
        (now_ms env_utc) = Inr ''-03:00''
   \<and> onSubmit env_utc sample_form sample_data (FetchResolved response_html)
       = (sample_form,
          [Post sample_url (make_payload sample_data sample_place ''+03:00''),
           DocumentOpen, DocumentWrite ''<html>Mapa</html>'', DocumentClose], None)
   \<and> p_birthDate (make_payload sample_data sample_place ''+03:00'') = ''2024-06-15''
   \<and> pl_timezone (p_place (make_payload sample_data sample_place ''+03:00''))
       = ''America/Sao_Paulo''
   \<and> pl_timezoneOffset (p_place (make_payload sample_data sample_place ''+03:00'')) = ''+03:00''"
proof -
  have db: "zone_offset env_utc ''America/Sao_Paulo'' (now_ms env_utc) = Some (- 180)"
    "local_offset env_utc = 0"
    by (simp_all add: env_utc_def zones_sample_def)
  have right: "spec_offset_string (- 180) = ''-03:00''"
    by (simp add: spec_offset_string_def padStart_def String_of_nat.simps digit_char_def)
  have tokyo: "getTimezoneOffsetISO (env_utc\<lparr>local_offset := 540\<rparr>) ''America/Sao_Paulo''
        (now_ms env_utc) = Inr ''+21:00''"
    by (simp add: getTimezoneOffsetISO_value [where z = "- 180"] env_utc_def
      zones_sample_def spec_offset_string_def padStart_def String_of_nat.simps digit_char_def)
  have brt: "getTimezoneOffsetISO (env_utc\<lparr>local_offset := - 180\<rparr>) ''America/Sao_Paulo''
        (now_ms env_utc) = Inr ''-03:00''"
    by (simp add: getTimezoneOffsetISO_value [where z = "- 180"] env_utc_def
      zones_sample_def spec_offset_string_def padStart_def String_of_nat.simps digit_char_def)
  have sp: "selectedPlace sample_form = Some sample_place" by (simp add: sample_form_def)
  have url: "or_else (WEBHOOK_URL env_utc) [] = sample_url"
    by (simp add: env_utc_def or_else_def sample_url_def)
  have ne: "sample_url \<noteq> []" by (simp add: sample_url_def)
  have off: "getTimezoneOffsetISO env_utc (timezone sample_place) (now_ms env_utc) = Inr ''+03:00''"
    using offset_utc by (simp add: sample_place_def)
  have submit: "onSubmit env_utc sample_form sample_data (FetchResolved response_html)
       = (sample_form,
          [Post sample_url (make_payload sample_data sample_place ''+03:00''),
           DocumentOpen, DocumentWrite ''<html>Mapa</html>'', DocumentClose], None)"
    by (simp add: onSubmit_network [OF sp url ne off] onSubmit_try_def response_html_def)
  have payload: "p_birthDate (make_payload sample_data sample_place ''+03:00'') = ''2024-06-15''"
    "pl_timezone (p_place (make_payload sample_data sample_place ''+03:00''))
       = ''America/Sao_Paulo''"
    "pl_timezoneOffset (p_place (make_payload sample_data sample_place ''+03:00'')) = ''+03:00''"
    by (simp_all add: make_payload_def sample_data_def sample_place_def format_yyyy_MM_dd_def
        padStart_def String_of_nat.simps digit_char_def)
  from db right offset_utc tokyo brt submit payload show ?thesis by simp
qed

text \<open>
  C3. The submit button is disabled exactly when the form's validation fails, or
  no Place is resolved, or the resolved Place has an empty timezone. And when
  \<open>onSubmit\<close> runs with no resolved Place, it sets the field error on
  \<open>birthPlace\<close> and returns: that is its only effect, so no request is made.
\<close>

theorem C3_submit_disabled:
  "(submit_disabled formState_isValid st \<longleftrightarrow>
      (\<not> formState_isValid \<or> selectedPlace st = None
       \<or> (\<exists>p. selectedPlace st = Some p \<and> timezone p = [])))
   \<and> (selectedPlace st = None \<longrightarrow>
        onSubmit env st data fr = (st, [SetError ''birthPlace'' msg_select_city], None)
        \<and> \<not> (\<exists>eff \<in> set (fst (snd (onSubmit env st data fr))). is_post eff))"
  by (auto simp: submit_disabled_def isFormValid_def onSubmit_def split: option.splits)

theorem C3_submit_disabled_witness:
  "submit_disabled True (sample_form\<lparr>selectedPlace := None\<rparr>)
   \<and> submit_disabled True (sample_form\<lparr>selectedPlace := Some (sample_place\<lparr>timezone := []\<rparr>)\<rparr>)
   \<and> submit_disabled False sample_form
   \<and> \<not> submit_disabled True sample_form
   \<and> onSubmit env_brt (sample_form\<lparr>selectedPlace := None\<rparr>) sample_data
        (FetchResolved response_html)
      = (sample_form\<lparr>selectedPlace := None\<rparr>, [SetError ''birthPlace'' msg_select_city], None)"
  using C3_submit_disabled [of True "sample_form\<lparr>selectedPlace := None\<rparr>" env_brt sample_data
          "FetchResolved response_html"]
        C3_submit_disabled [of True
          "sample_form\<lparr>selectedPlace := Some (sample_place\<lparr>timezone := []\<rparr>)\<rparr>"]
        C3_submit_disabled [of False sample_form]
        C3_submit_disabled [of True sample_form]
  by (simp add: sample_form_def sample_place_def)

text \<open>
  C9. When the webhook URL is absent (undefined or empty) as \<open>onSubmit\<close> runs, no
  POST is made; and when the submission has its resolved Place, \<open>onSubmit\<close> logs
  the missing variable, shows one alert and returns, doing nothing else. The
  condition is found at submission and not at startup: mounting the page makes no
  alert whatever the URL is, and no event but a submission ever makes one.
\<close>

theorem C9_missing_webhook_url:
  "or_else (WEBHOOK_URL env) [] = [] \<Longrightarrow>
     filter is_post (fst (snd (onSubmit env st data fr))) = []
     \<and> snd (snd (onSubmit env st data fr)) = None
     \<and> (selectedPlace st \<noteq> None \<longrightarrow>
          onSubmit env st data fr
            = (st, [ConsoleError_text msg_url_undefined, Alert msg_config_missing], None)
          \<and> length (filter is_alert (fst (snd (onSubmit env st data fr)))) = 1)
     \<and> mount env = (app_init, [])
     \<and> (\<forall>ev. (\<exists>eff \<in> set (event_effects s ev). is_alert eff)
            \<longrightarrow> (\<exists>env' data' fr'. ev = Submit env' data' fr'))"
proof -
  assume absent: "or_else (WEBHOOK_URL env) [] = []"
  have no_post: "filter is_post (fst (snd (onSubmit env st data fr))) = []"
    "snd (snd (onSubmit env st data fr)) = None"
    using absent by (auto simp: onSubmit_def split: option.splits)
  have alert: "selectedPlace st \<noteq> None \<longrightarrow>
          onSubmit env st data fr
            = (st, [ConsoleError_text msg_url_undefined, Alert msg_config_missing], None)
          \<and> length (filter is_alert (fst (snd (onSubmit env st data fr)))) = 1"
    using absent by (auto simp: onSubmit_def split: option.splits)
  have startup: "mount env = (app_init, [])"
    by (simp add: mount_def)
  have only_submit: "\<forall>ev. (\<exists>eff \<in> set (event_effects s ev). is_alert eff)
            \<longrightarrow> (\<exists>env' data' fr'. ev = Submit env' data' fr')"
  proof (intro allI impI)
    fix ev assume "\<exists>eff \<in> set (event_effects s ev). is_alert eff"
    then show "\<exists>env' data' fr'. ev = Submit env' data' fr'"
      by (cases ev) (simp_all add: event_effects_def)
  qed
  from no_post alert startup only_submit show ?thesis by blast
qed

theorem C9_missing_webhook_url_witness:
  "onSubmit (env_brt\<lparr>WEBHOOK_URL := None\<rparr>) sample_form sample_data (FetchResolved response_html)
     = (sample_form, [ConsoleError_text msg_url_undefined, Alert msg_config_missing], None)
   \<and> onSubmit (env_brt\<lparr>WEBHOOK_URL := Some []\<rparr>) sample_form sample_data
        (FetchResolved response_html)
     = (sample_form, [ConsoleError_text msg_url_undefined, Alert msg_config_missing], None)
   \<and> mount (env_brt\<lparr>WEBHOOK_URL := None\<rparr>) = (app_init, [])
   \<and> event_effects (app_init\<lparr>form := sample_form\<rparr>)
        (Submit (env_brt\<lparr>WEBHOOK_URL := None\<rparr>) sample_data (FetchResolved response_html))
     = [ConsoleError_text msg_url_undefined, Alert msg_config_missing]"
  using C9_missing_webhook_url [of "env_brt\<lparr>WEBHOOK_URL := None\<rparr>" sample_form sample_data
          "FetchResolved response_html" app_init]
        C9_missing_webhook_url [of "env_brt\<lparr>WEBHOOK_URL := Some []\<rparr>" sample_form sample_data
          "FetchResolved response_html" app_init]
  by (simp add: or_else_def sample_form_def event_effects_def)

text \<open>
  C5. After a POST that resolved to a response with \<open>ok\<close>, \<open>onSubmit\<close> branches on
  the \<open>content-type\<close> header (the empty text when absent): if it contains
  \<open>text/html\<close>, the document is opened, written with the response text and closed,
  and nothing else is done; otherwise, if it contains \<open>application/pdf\<close>, an object
  URL is made of the body and the location set to it; otherwise the body is parsed
  as JSON and whatever comes of it, a failure included, is dropped: \<open>onSubmit\<close>
  returns with no alert and no log. In each case the POST is the only request.
\<close>

theorem C5_response_branching:
  assumes "selectedPlace st = Some sp"
    and "or_else (WEBHOOK_URL env) [] = url" and "url \<noteq> []"
    and "getTimezoneOffsetISO env (timezone sp) (now_ms env) = Inr off"
    and "payload = make_payload data sp off"
    and "ok res"
    and "ct = (case content_type res of None \<Rightarrow> [] | Some c \<Rightarrow> c)"
  shows "(str_includes ct ''text/html'' \<longrightarrow>
           (\<forall>html. text_body res = Inr html \<longrightarrow>
              onSubmit env st data (FetchResolved res)
                = (st, [Post url payload, DocumentOpen, DocumentWrite html, DocumentClose], None)))
       \<and> (\<not> str_includes ct ''text/html'' \<and> str_includes ct ''application/pdf'' \<longrightarrow>
           (\<forall>blob. blob_body res = Inr blob \<longrightarrow>
              onSubmit env st data (FetchResolved res)
                = (st, [Post url payload, CreateObjectURL blob,
                        SetLocationHref (createObjectURL env blob)], None)))
       \<and> (\<not> str_includes ct ''text/html'' \<and> \<not> str_includes ct ''application/pdf'' \<longrightarrow>
           onSubmit env st data (FetchResolved res) = (st, [Post url payload], None)
           \<and> (\<forall>e. json_body res = Inl e \<longrightarrow>
                 try_catch (json_body res) (\<lambda>e. Inr (JObject [])) = Inr (JObject [])))"
proof -
  note net = onSubmit_network [OF assms(1-4), of data "FetchResolved res", folded assms(5)]
  have html: "str_includes ct ''text/html'' \<longrightarrow>
           (\<forall>html. text_body res = Inr html \<longrightarrow>
              onSubmit env st data (FetchResolved res)
                = (st, [Post url payload, DocumentOpen, DocumentWrite html, DocumentClose], None))"
    using assms(6,7) by (simp add: net onSubmit_try_def)
  have pdf: "\<not> str_includes ct ''text/html'' \<and> str_includes ct ''application/pdf'' \<longrightarrow>
           (\<forall>blob. blob_body res = Inr blob \<longrightarrow>
              onSubmit env st data (FetchResolved res)
                = (st, [Post url payload, CreateObjectURL blob,
                        SetLocationHref (createObjectURL env blob)], None))"
    using assms(6,7) by (simp add: net onSubmit_try_def)
  have other: "\<not> str_includes ct ''text/html'' \<and> \<not> str_includes ct ''application/pdf'' \<longrightarrow>
           onSubmit env st data (FetchResolved res) = (st, [Post url payload], None)"
    using assms(6,7) by (simp add: net onSubmit_try_def try_catch_def split: sum.splits)
  have swallowed: "\<forall>e. json_body res = Inl e \<longrightarrow>
                 try_catch (json_body res) (\<lambda>e. Inr (JObject [])) = Inr (JObject [])"
    by (simp add: try_catch_def)
  from html pdf other swallowed show ?thesis by blast
qed

theorem C5_response_branching_witness:
  "onSubmit env_brt sample_form sample_data (FetchResolved response_html)
     = (sample_form,
        [Post sample_url (make_payload sample_data sample_place ''-03:00''),
         DocumentOpen, DocumentWrite ''<html>Mapa</html>'', DocumentClose], None)
   \<and> onSubmit env_brt sample_form sample_data (FetchResolved response_pdf)
     = (sample_form,
        [Post sample_url (make_payload sample_data sample_place ''-03:00''),
         CreateObjectURL ''%PDF-1.7'', SetLocationHref ''blob:https://astrobot.example/1''], None)
   \<and> onSubmit env_brt sample_form sample_data (FetchResolved response_plain)
     = (sample_form, [Post sample_url (make_payload sample_data sample_place ''-03:00'')], None)"
proof -
  have sp: "selectedPlace sample_form = Some sample_place" by (simp add: sample_form_def)
  have url: "or_else (WEBHOOK_URL env_brt) [] = sample_url"
    by (simp add: env_brt_def env_utc_def or_else_def sample_url_def)
  have ne: "sample_url \<noteq> []" by (simp add: sample_url_def)
  have off: "getTimezoneOffsetISO env_brt (timezone sample_place) (now_ms env_brt) = Inr ''-03:00''"
    using offset_brt by (simp add: sample_place_def)
  note branch = C5_response_branching [OF sp url ne off refl _ refl, of _ sample_data]
  have "ok response_html" "ok response_pdf" "ok response_plain"
    by (simp_all add: response_html_def response_pdf_def response_plain_def)
  from this [THEN branch] show ?thesis
    by (simp add: response_html_def response_pdf_def response_plain_def env_brt_def env_utc_def
        blob_url_sample_def)
qed



end
